theory Spec2Isabelle
  imports Main
begin

section \<open>JavaScript values\<close>

text \<open>
  The values the client handles are the values of JSON, plus \<open>undefined\<close> (what reading
  an absent property gives). Numbers are integers; the one number the client computes
  with, the id counter, is incremented by \<open>increment\<close> below. An object is the list of its
  own properties in order; a lookup takes the first binding of a name.
\<close>

datatype jsval =
    Undefined
  | Null
  | Bool bool
  | Num int
  | Str string
  | Arr "jsval list"
  | Obj "(string \<times> jsval) list"

text \<open>
  \<open>n++\<close> stores \<open>n + 1\<close>, computed on doubles. For an integer \<open>n\<close> from \<open>-2^53\<close> to
  \<open>2^53\<close> (a counter started at 1 never holds anything else): below \<open>2^53\<close> the sum is
  exact; at \<open>2^53 = 9007199254740992\<close> the sum \<open>2^53 + 1\<close> is no double and rounds to the
  even neighbour, \<open>2^53\<close> again, so the counter stays where it is.
\<close>

definition increment :: "int \<Rightarrow> int" where
  "increment n = (if n < 9007199254740992 then n + 1 else n)"

text \<open>
  A function value supplied by the caller is opaque: the model knows it by name and
  records each invocation. A parameter that the caller left out is \<open>undefined\<close>,
  here \<open>None\<close>.
\<close>

datatype jsfun = Fun string

type_synonym callback = "jsfun option"

datatype exn = TypeError | ThrownString string

text \<open>What a piece of code did: it returned, or it threw, either way leaving a state.\<close>

datatype 's outcome = Returned 's | Thrown exn 's

fun state_of :: "'s outcome \<Rightarrow> 's" where
  "state_of (Returned s) = s"
| "state_of (Thrown x s) = s"

subsection \<open>Property names\<close>

text \<open>
  \<open>obj[v]\<close> and \<open>v in obj\<close> convert \<open>v\<close> to a property name, a string.
\<close>

fun dec :: "nat \<Rightarrow> string" where
  "dec n = (if n < 10 then [''0123456789'' ! n]
            else dec (n div 10) @ [''0123456789'' ! (n mod 10)])"

declare dec.simps [simp del]

definition num_str :: "int \<Rightarrow> string" where
  "num_str i = (if i < 0 then CHR ''-'' # dec (nat (- i)) else dec (nat i))"

fun prop_key :: "jsval \<Rightarrow> string" and elems_str :: "jsval list \<Rightarrow> string" where
  "prop_key Undefined = ''undefined''"
| "prop_key Null = ''null''"
| "prop_key (Bool b) = (if b then ''true'' else ''false'')"
| "prop_key (Num i) = num_str i"
| "prop_key (Str s) = s"
| "prop_key (Arr xs) = elems_str xs"
| "prop_key (Obj kvs) = ''[object Object]''"
| "elems_str [] = []"
| "elems_str (x # xs) =
     (if x = Undefined then [] else if x = Null then [] else prop_key x)
     @ (if xs = [] then [] else CHR '','' # elems_str xs)"

text \<open>
  \<open>k in v\<close>: a TypeError (\<open>None\<close>) unless \<open>v\<close> is an object or an array.
\<close>

fun has_property :: "string \<Rightarrow> jsval \<Rightarrow> bool option" where
  "has_property k (Obj kvs) = Some (k \<in> set (map fst kvs))"
| "has_property k (Arr xs) =
     Some (k = ''length'' \<or> k \<in> set (map dec [0..<length xs]))"
| "has_property k v = None"

text \<open>
  \<open>v.k\<close> for the names the client reads (\<open>id\<close>, \<open>result\<close>, \<open>error\<close>, \<open>jsonrpc\<close>):
  a TypeError (\<open>None\<close>) on \<open>null\<close> and \<open>undefined\<close>, \<open>undefined\<close> where the
  property is absent.
\<close>

fun get_property :: "jsval \<Rightarrow> string \<Rightarrow> jsval option" where
  "get_property (Obj kvs) k =
     Some (case map_of kvs k of None \<Rightarrow> Undefined | Some v \<Rightarrow> v)"
| "get_property Undefined k = None"
| "get_property Null k = None"
| "get_property v k = Some Undefined"

text \<open>
  \<open>v.k\<close> where \<open>v\<close> is an object the client built or has passed an \<open>in\<close> test, so that
  reading cannot throw.
\<close>

definition dot :: "jsval \<Rightarrow> string \<Rightarrow> jsval" where
  "dot v k = (case get_property v k of Some x \<Rightarrow> x | None \<Rightarrow> Undefined)"

section \<open>The state of a page\<close>

text \<open>
  \<open>handlers[id]\<close> and \<open>_ws_callbacks[id]\<close> hold the two continuations of a call.
\<close>

record handler =
  success_cb :: callback
  error_cb :: callback

text \<open>An element of \<open>_batch\<close>: \<open>{ request, success_cb, error_cb }\<close>.\<close>

record batch_entry = handler +
  request :: jsval

text \<open>
  The object \<open>handlers\<close> that \<open>endBatch\<close> builds: an assignment \<open>handlers[k] = v\<close> puts
  the binding in front, so the latest assignment to a name is the one a lookup finds.
\<close>

type_synonym handlers = "(string \<times> handler) list"

text \<open>
  The two callbacks given to \<open>$.ajax\<close> are closures; each is known by the function that
  built it and the variables it captured.
\<close>

datatype ajax_cb =
    CallCb callback callback
  | NotifyCb
  | BatchCb handlers callback callback

record ajax_settings =
  ajax_url :: "string option"
  ajax_data :: string
  ajax_callbacks :: ajax_cb

text \<open>What the client does to the world outside it, in the order it does it.\<close>

datatype effect =
    Invoke jsfun "jsval list"
  | ConsoleLog jsval
  | Ajax ajax_settings

text \<open>
  A WebSocket object. \<open>sock_onopen\<close> is the closure \<open>function() { socket.send(request_json); }\<close>
  of \<open>_wsCall\<close>, known by the \<open>request_json\<close> it captured; \<open>sent\<close> lists what was handed to
  \<open>send\<close>.
\<close>

record websocket =
  sock_url :: string
  readyState :: nat
  sock_onopen :: "string option"
  sock_onmessage :: "jsfun option"
  sent :: "string list"

text \<open>
  What all client instances of a page share. \<open>p_ws_callbacks\<close> is the one object that
  \<open>$.JsonRpcClient.prototype._ws_callbacks = {}\<close> creates: no instance ever assigns the
  property, every instance reads it through the prototype and writes into the object it
  finds there. WebSocket objects live in a store and are known by reference.
\<close>

record world =
  p_ws_callbacks :: "string \<rightharpoonup> handler"
  sockets :: "nat \<Rightarrow> websocket"
  next_socket :: nat
  trace :: "effect list"

text \<open>
  \<open>options.getSocket\<close> is \<open>_getSocket\<close> unless the caller supplied a function; a function of
  the caller's is taken to answer with the same handle (or \<open>null\<close>) every time.
\<close>

datatype getSocket_option = Default_getSocket | Caller_getSocket "nat option"

record options =
  ajaxUrl :: "string option"
  socketUrl :: "string option"
  onmessage :: "jsfun option"
  getSocket :: getSocket_option

text \<open>
  The own properties of one instance. \<open>_ws_socket\<close>, \<open>_current_id\<close> and \<open>_batch\<close> are
  read from the prototype (\<open>null\<close>, \<open>1\<close>, \<open>null\<close>) until the instance first assigns them.
\<close>

record client =
  options :: options
  wsOnMessage :: jsfun
  p_ws_socket :: "nat option"
  p_current_id :: int
  p_batch :: "batch_entry list option"

text \<open>
  The page around the client: jquery.json's two functions, what \<open>window\<close> has, and the
  names that every object inherits from \<open>Object.prototype\<close> (\<open>toString\<close> and the like),
  which \<open>in\<close> finds as it finds own properties.
\<close>

record env =
  toJSON :: "jsval \<Rightarrow> string"
  parseJSON :: "string \<Rightarrow> jsval option"
  console_in_window :: bool
  WebSocket_in_window :: bool
  inherited :: "string \<Rightarrow> bool"

text \<open>A message event of a socket; \<open>event_val\<close> is the event as a value passed on.\<close>

record event =
  event_data :: string

definition event_val :: "event \<Rightarrow> jsval" where
  "event_val ev = Obj [(''data'', Str (event_data ev))]"

text \<open>\<open>new $.JsonRpcClient(options)\<close>; \<open>f\<close> names the closure \<open>this.wsOnMessage\<close>.\<close>

definition JsonRpcClient :: "jsfun \<Rightarrow> options \<Rightarrow> client" where
  "JsonRpcClient f opts =
     \<lparr>options = opts, wsOnMessage = f, p_ws_socket = None, p_current_id = 1,
      p_batch = None\<rparr>"

text \<open>Calling a callback: a TypeError when it is \<open>undefined\<close>.\<close>

definition invoke :: "callback \<Rightarrow> jsval list \<Rightarrow> world \<Rightarrow> world outcome" where
  "invoke f args w =
     (case f of
        None \<Rightarrow> Thrown TypeError w
      | Some g \<Rightarrow> Returned (w\<lparr>trace := trace w @ [Invoke g args]\<rparr>))"

definition console_log :: "env \<Rightarrow> jsval \<Rightarrow> world \<Rightarrow> world" where
  "console_log e v w =
     (if console_in_window e then w\<lparr>trace := trace w @ [ConsoleLog v]\<rparr> else w)"

section \<open>The WebSocket path\<close>

text \<open>\<open>_getSocket\<close>, lines 283-297.\<close>

definition p_getSocket ::
  "env \<Rightarrow> jsfun \<Rightarrow> client \<Rightarrow> world \<Rightarrow> nat option \<times> client \<times> world" where
  "p_getSocket e onmessage_cb c w =
     (case socketUrl (options c) of
        None \<Rightarrow> (None, c, w)
      | Some u \<Rightarrow>
          if WebSocket_in_window e then
            (if (case p_ws_socket c of
                   None \<Rightarrow> True
                 | Some r \<Rightarrow> readyState (sockets w r) > 1)
             then
               (let r = next_socket w;
                    s = \<lparr>sock_url = u, readyState = 0, sock_onopen = None,
                         sock_onmessage = Some onmessage_cb, sent = []\<rparr>
                in (Some r, c\<lparr>p_ws_socket := Some r\<rparr>,
                    w\<lparr>sockets := (sockets w)(r := s), next_socket := r + 1\<rparr>))
             else (p_ws_socket c, c, w))
          else (None, c, w))"

text \<open>\<open>this.options.getSocket(this.wsOnMessage)\<close>.\<close>

definition options_getSocket ::
  "env \<Rightarrow> client \<Rightarrow> world \<Rightarrow> nat option \<times> client \<times> world" where
  "options_getSocket e c w =
     (case getSocket (options c) of
        Default_getSocket \<Rightarrow> p_getSocket e (wsOnMessage c) c w
      | Caller_getSocket r \<Rightarrow> (r, c, w))"

text \<open>\<open>socket.send(payload)\<close>.\<close>

definition socket_send :: "nat \<Rightarrow> string \<Rightarrow> world \<Rightarrow> world" where
  "socket_send r payload w =
     w\<lparr>sockets := (sockets w)(r := (sockets w r)\<lparr>sent := sent (sockets w r) @ [payload]\<rparr>)\<rparr>"

text \<open>\<open>_wsCall\<close>, lines 305-327.\<close>

definition p_wsCall ::
  "env \<Rightarrow> nat \<Rightarrow> jsval \<Rightarrow> callback \<Rightarrow> callback \<Rightarrow> world \<Rightarrow> world" where
  "p_wsCall e socket req success error w =
     (let request_json = toJSON e req;
          w1 = (if readyState (sockets w socket) < 1
                then w\<lparr>sockets := (sockets w)
                       (socket := (sockets w socket)\<lparr>sock_onopen := Some request_json\<rparr>)\<rparr>
                else socket_send socket request_json w)
      in if has_property ''id'' req = Some True \<and> success \<noteq> None
         then w1\<lparr>p_ws_callbacks := (p_ws_callbacks w1)
                (prop_key (dot req ''id'') \<mapsto> \<lparr>success_cb = success, error_cb = error\<rparr>)\<rparr>
         else w1)"

text \<open>
  The browser opens the socket: \<open>readyState\<close> becomes 1 and the handler in \<open>onopen\<close>, if
  there is one, runs.
\<close>

definition socket_open :: "nat \<Rightarrow> world \<Rightarrow> world" where
  "socket_open r w =
     (let w1 = w\<lparr>sockets := (sockets w)(r := (sockets w r)\<lparr>readyState := 1\<rparr>)\<rparr>
      in case sock_onopen (sockets w r) of
           None \<Rightarrow> w1
         | Some request_json \<Rightarrow> socket_send r request_json w1)"

text \<open>
  \<open>_wsOnMessage\<close>, lines 336-385. \<open>wsOnMessage_try\<close> is its \<open>try\<close> with its \<open>catch\<close>: the
  answer says whether the body reached one of its two \<open>return\<close>s. An exception inside the
  body (of \<open>$.parseJSON\<close>, of \<open>in\<close> on \<open>null\<close>, of calling an \<open>undefined\<close> callback) is
  caught by the empty \<open>catch\<close>: the answer is \<open>False\<close> with the state the body had reached.
\<close>

definition typeof_object :: "jsval \<Rightarrow> bool" where
  "typeof_object v =
     (case v of Obj kvs \<Rightarrow> True | Arr xs \<Rightarrow> True | Null \<Rightarrow> True | _ \<Rightarrow> False)"

text \<open>
  \<open>k in response && this._ws_callbacks[response.id]\<close>: \<open>false\<close> or \<open>undefined\<close>
  (\<open>None\<close>), or the entry found. A TypeError of \<open>in\<close> cannot occur here, the response
  having passed \<open>'jsonrpc' in response\<close>. Under a name that \<open>_ws_callbacks\<close> only
  inherits the source finds the inherited member, which has no \<open>success_cb\<close> and no
  \<open>error_cb\<close>: \<open>delete\<close> removes nothing, calling \<open>undefined\<close> throws, the \<open>catch\<close>
  swallows it, and the message goes the way it goes when nothing is found, which is how
  the model has it.
\<close>

definition in_and_callbacks :: "string \<Rightarrow> jsval \<Rightarrow> world \<Rightarrow> handler option" where
  "in_and_callbacks k response w =
     (if has_property k response = Some True
      then p_ws_callbacks w (prop_key (dot response ''id''))
      else None)"

text \<open>
  Lines 351-359 (with \<open>k\<close> = \<open>result\<close> and the entry's \<open>success_cb\<close>) and lines 364-372
  (with \<open>k\<close> = \<open>error\<close> and the entry's \<open>error_cb\<close>): take the callback, delete the
  entry, run the callback, return.
\<close>

definition delete_and_run ::
  "callback \<Rightarrow> string \<Rightarrow> jsval \<Rightarrow> world \<Rightarrow> bool \<times> world" where
  "delete_and_run cb k response w =
     (let rid = dot response ''id'';
          w1 = w\<lparr>p_ws_callbacks := (p_ws_callbacks w)(prop_key rid := None)\<rparr>
      in case invoke cb [dot response k] w1 of
           Returned w2 \<Rightarrow> (True, w2)
         | Thrown x w2 \<Rightarrow> (False, w2))"

definition wsOnMessage_try :: "env \<Rightarrow> event \<Rightarrow> world \<Rightarrow> bool \<times> world" where
  "wsOnMessage_try e ev w =
     (case parseJSON e (event_data ev) of
        None \<Rightarrow> (False, w)
      | Some response \<Rightarrow>
          if typeof_object response then
            (case has_property ''jsonrpc'' response of
               None \<Rightarrow> (False, w)
             | Some False \<Rightarrow> (False, w)
             | Some True \<Rightarrow>
                 if get_property response ''jsonrpc'' = Some (Str ''2.0'') then
                   (case in_and_callbacks ''result'' response w of
                      Some h \<Rightarrow> delete_and_run (success_cb h) ''result'' response w
                    | None \<Rightarrow>
                        (case in_and_callbacks ''error'' response w of
                           Some h \<Rightarrow> delete_and_run (error_cb h) ''error'' response w
                         | None \<Rightarrow> (False, w)))
                 else (False, w))
          else (False, w))"

text \<open>After the \<open>try\<close>, lines 381-384: the fallback handler, if one was given.\<close>

definition fallback :: "client \<Rightarrow> event \<Rightarrow> world \<Rightarrow> world outcome" where
  "fallback c ev w =
     (case onmessage (options c) of
        None \<Rightarrow> Returned w
      | Some f \<Rightarrow> invoke (Some f) [event_val ev] w)"

definition p_wsOnMessage :: "env \<Rightarrow> client \<Rightarrow> event \<Rightarrow> world \<Rightarrow> world outcome" where
  "p_wsOnMessage e c ev w =
     (case wsOnMessage_try e ev w of
        (True, w1) \<Rightarrow> Returned w1
      | (False, w1) \<Rightarrow> fallback c ev w1)"

section \<open>The HTTP path\<close>

text \<open>The request objects that \<open>call\<close> (lines 71-76) and \<open>notify\<close> (lines 141-145) build.\<close>

definition call_request :: "client \<Rightarrow> string \<Rightarrow> jsval \<Rightarrow> jsval" where
  "call_request c method params =
     Obj [(''jsonrpc'', Str ''2.0''), (''method'', Str method), (''params'', params),
          (''id'', Num (p_current_id c))]"

definition notify_request :: "string \<Rightarrow> jsval \<Rightarrow> jsval" where
  "notify_request method params =
     Obj [(''jsonrpc'', Str ''2.0''), (''method'', Str method), (''params'', params)]"

text \<open>\<open>$.ajax(settings)\<close> starts an exchange; its callbacks run later.\<close>

definition ajax :: "ajax_settings \<Rightarrow> world \<Rightarrow> world" where
  "ajax st w = w\<lparr>trace := trace w @ [Ajax st]\<rparr>"

text \<open>\<open>call\<close>, lines 69-125.\<close>

definition call ::
  "env \<Rightarrow> string \<Rightarrow> jsval \<Rightarrow> callback \<Rightarrow> callback \<Rightarrow> client \<times> world
   \<Rightarrow> (client \<times> world) outcome" where
  "call e method params success error cw =
     (let req = call_request (fst cw) method params;
          c1 = (fst cw)\<lparr>p_current_id := increment (p_current_id (fst cw))\<rparr>
      in case options_getSocket e c1 (snd cw) of
           (Some socket, c2, w2) \<Rightarrow> Returned (c2, p_wsCall e socket req success error w2)
         | (None, c2, w2) \<Rightarrow>
             (case p_batch c2 of
                Some b \<Rightarrow>
                  Returned
                    (c2\<lparr>p_batch := Some (b @
                       [\<lparr>success_cb = success, error_cb = error, request = req\<rparr>])\<rparr>, w2)
              | None \<Rightarrow>
                  (case ajaxUrl (options c2) of
                     None \<Rightarrow>
                       Thrown (ThrownString
                         ''$.JsonRpcClient.call used with no websocket and no http endpoint.'')
                         (c2, w2)
                   | Some u \<Rightarrow>
                       Returned (c2, ajax \<lparr>ajax_url = Some u, ajax_data = toJSON e req,
                                            ajax_callbacks = CallCb success error\<rparr> w2))))"

text \<open>\<open>notify\<close>, lines 139-172.\<close>

definition notify ::
  "env \<Rightarrow> string \<Rightarrow> jsval \<Rightarrow> client \<times> world \<Rightarrow> (client \<times> world) outcome" where
  "notify e method params cw =
     (let req = notify_request method params
      in case options_getSocket e (fst cw) (snd cw) of
           (Some socket, c2, w2) \<Rightarrow> Returned (c2, p_wsCall e socket req None None w2)
         | (None, c2, w2) \<Rightarrow>
             (case p_batch c2 of
                Some b \<Rightarrow>
                  Returned
                    (c2\<lparr>p_batch := Some (b @
                       [\<lparr>success_cb = None, error_cb = None, request = req\<rparr>])\<rparr>, w2)
              | None \<Rightarrow>
                  (case ajaxUrl (options c2) of
                     None \<Rightarrow>
                       Thrown (ThrownString
                         ''$.JsonRpcClient.notify used with no websocket and no http endpoint.'')
                         (c2, w2)
                   | Some u \<Rightarrow>
                       Returned (c2, ajax \<lparr>ajax_url = Some u, ajax_data = toJSON e req,
                                            ajax_callbacks = NotifyCb\<rparr> w2))))"

text \<open>\<open>startBatch\<close>, lines 182-186.\<close>

definition startBatch :: "client \<Rightarrow> client" where
  "startBatch c = (case p_batch c of None \<Rightarrow> c\<lparr>p_batch := Some []\<rparr> | Some b \<Rightarrow> c)"

text \<open>The loop of \<open>endBatch\<close>, lines 218-229, over \<open>batch_request\<close> and \<open>handlers\<close>.\<close>

fun endBatch_loop :: "batch_entry list \<Rightarrow> jsval list \<times> handlers \<Rightarrow> jsval list \<times> handlers" where
  "endBatch_loop [] acc = acc"
| "endBatch_loop (entry # rest) (batch_request, handlers) =
     endBatch_loop rest
       (batch_request @ [request entry],
        if has_property ''id'' (request entry) = Some True
        then (prop_key (dot (request entry) ''id''),
              \<lparr>success_cb = success_cb entry, error_cb = error_cb entry\<rparr>) # handlers
        else handlers)"

text \<open>\<open>endBatch\<close>, lines 201-245.\<close>

definition endBatch ::
  "env \<Rightarrow> callback \<Rightarrow> callback \<Rightarrow> client \<times> world \<Rightarrow> client \<times> world" where
  "endBatch e all_done_cb error cw =
     (case p_batch (fst cw) of
        None \<Rightarrow> cw
      | Some b \<Rightarrow>
          (let c1 = (fst cw)\<lparr>p_batch := None\<rparr>
           in if length b = 0 then (c1, snd cw)
              else
                (let (batch_request, handlers) = endBatch_loop b ([], [])
                 in (c1, ajax \<lparr>ajax_url = ajaxUrl (options c1),
                                ajax_data = toJSON e (Arr batch_request),
                                ajax_callbacks = BatchCb handlers all_done_cb error\<rparr> (snd cw)))))"

text \<open>What \<open>for (var i in result)\<close> visits, as the values \<open>result[i]\<close>.\<close>

fun for_in_values :: "jsval \<Rightarrow> jsval list" where
  "for_in_values (Arr xs) = xs"
| "for_in_values (Obj kvs) = map snd kvs"
| "for_in_values (Str s) = map (\<lambda>ch. Str [ch]) s"
| "for_in_values v = []"

text \<open>
  \<open>id in handlers\<close>: an own property of \<open>handlers\<close> or a name it inherits.
\<close>

definition in_handlers :: "env \<Rightarrow> jsval \<Rightarrow> handlers \<Rightarrow> bool" where
  "in_handlers e rid handlers =
     (prop_key rid \<in> set (map fst handlers) \<or> inherited e (prop_key rid))"

text \<open>
  The loop of \<open>_batchCb\<close>, lines 254-270. \<open>handlers[response.id].error_cb(...)\<close> throws a
  TypeError when \<open>handlers\<close> has no own property of that name: either there is nothing
  to read \<open>error_cb\<close> from, or what is read from the inherited member is \<open>undefined\<close>
  and cannot be called. The same holds of \<open>success_cb\<close>.
\<close>

fun batchCb_loop :: "env \<Rightarrow> jsval list \<Rightarrow> handlers \<Rightarrow> world \<Rightarrow> world outcome" where
  "batchCb_loop e [] handlers w = Returned w"
| "batchCb_loop e (response # rest) handlers w =
     (case has_property ''error'' response of
        None \<Rightarrow> Thrown TypeError w
      | Some True \<Rightarrow>
          (let rid = dot response ''id''
           in if rid = Null \<or> in_handlers e rid handlers
              then batchCb_loop e rest handlers (console_log e response w)
              else
                (case map_of handlers (prop_key rid) of
                   None \<Rightarrow> Thrown TypeError w
                 | Some h \<Rightarrow>
                     (case invoke (error_cb h) [dot response ''error''] w of
                        Thrown x w1 \<Rightarrow> Thrown x w1
                      | Returned w1 \<Rightarrow> batchCb_loop e rest handlers w1)))
      | Some False \<Rightarrow>
          (let rid = dot response ''id''
           in if in_handlers e rid handlers \<and> console_in_window e
              then batchCb_loop e rest handlers (console_log e response w)
              else
                (case map_of handlers (prop_key rid) of
                   None \<Rightarrow> Thrown TypeError w
                 | Some h \<Rightarrow>
                     (case invoke (success_cb h) [dot response ''result''] w of
                        Thrown x w1 \<Rightarrow> Thrown x w1
                      | Returned w1 \<Rightarrow> batchCb_loop e rest handlers w1))))"

text \<open>\<open>_batchCb\<close>, lines 253-273.\<close>

definition p_batchCb ::
  "env \<Rightarrow> jsval \<Rightarrow> handlers \<Rightarrow> callback \<Rightarrow> world \<Rightarrow> world outcome" where
  "p_batchCb e result handlers all_done_cb w =
     (case batchCb_loop e (for_in_values result) handlers w of
        Thrown x w1 \<Rightarrow> Thrown x w1
      | Returned w1 \<Rightarrow>
          (case all_done_cb of
             None \<Rightarrow> Returned w1
           | Some f \<Rightarrow> invoke (Some f) [result] w1))"

text \<open>
  The exchange succeeded and jQuery calls \<open>success(data)\<close>, \<open>data\<close> being \<open>body\<close>
  here: the closure of \<open>call\<close> (lines 107-110) or of \<open>endBatch\<close> (line 243); \<open>notify\<close>
  gave none. The \<open>error\<close> callbacks, for an exchange that failed, are not followed.
\<close>

fun ajax_success :: "env \<Rightarrow> ajax_cb \<Rightarrow> jsval \<Rightarrow> world \<Rightarrow> world outcome" where
  "ajax_success e (CallCb success error) body w =
     (case has_property ''error'' body of
        None \<Rightarrow> Thrown TypeError w
      | Some True \<Rightarrow>
          (case invoke error [dot body ''error''] w of
             Thrown x w1 \<Rightarrow> Thrown x w1
           | Returned w1 \<Rightarrow> invoke success [dot body ''result''] w1)
      | Some False \<Rightarrow> invoke success [dot body ''result''] w)"
| "ajax_success e NotifyCb body w = Returned w"
| "ajax_success e (BatchCb handlers all_done_cb error) body w =
     p_batchCb e body handlers all_done_cb w"

section \<open>Sequences of use\<close>

text \<open>
  What happens to one client, one thing after another: the caller uses its four methods,
  a message arrives at its \<open>wsOnMessage\<close>, a socket opens, an HTTP exchange succeeds.
\<close>

datatype action =
    Call string jsval callback callback
  | Notify string jsval
  | StartBatch
  | EndBatch callback callback
  | WsMessage event
  | SocketOpen nat
  | AjaxSuccess ajax_cb jsval

fun perform :: "env \<Rightarrow> action \<Rightarrow> client \<times> world \<Rightarrow> (client \<times> world) outcome" where
  "perform e (Call method params success error) cw = call e method params success error cw"
| "perform e (Notify method params) cw = notify e method params cw"
| "perform e StartBatch cw = Returned (startBatch (fst cw), snd cw)"
| "perform e (EndBatch all_done_cb error) cw = Returned (endBatch e all_done_cb error cw)"
| "perform e (WsMessage ev) cw =
     (case p_wsOnMessage e (fst cw) ev (snd cw) of
        Returned w \<Rightarrow> Returned (fst cw, w)
      | Thrown x w \<Rightarrow> Thrown x (fst cw, w))"
| "perform e (SocketOpen r) cw = Returned (fst cw, socket_open r (snd cw))"
| "perform e (AjaxSuccess cb body) cw =
     (case ajax_success e cb body (snd cw) of
        Returned w \<Rightarrow> Returned (fst cw, w)
      | Thrown x w \<Rightarrow> Thrown x (fst cw, w))"

text \<open>
  A sequence goes on after an action that threw, from the state the action left.
\<close>

fun session :: "env \<Rightarrow> action list \<Rightarrow> client \<times> world \<Rightarrow> client \<times> world" where
  "session e [] cw = cw"
| "session e (a # as) cw = session e as (state_of (perform e a cw))"

text \<open>Which actions are calls.\<close>

fun is_call :: "action \<Rightarrow> bool" where
  "is_call (Call method params success error) = True"
| "is_call a = False"


section \<open>A page for the examples\<close>

text \<open>
  A \<open>$.toJSON\<close> for the examples: compact, members in order, no escapes.
\<close>

fun json_text :: "jsval \<Rightarrow> string"
  and json_elems :: "jsval list \<Rightarrow> string"
  and json_members :: "(string \<times> jsval) list \<Rightarrow> string" where
  "json_text Undefined = ''undefined''"
| "json_text Null = ''null''"
| "json_text (Bool b) = (if b then ''true'' else ''false'')"
| "json_text (Num i) = num_str i"
| "json_text (Str s) = CHR 0x22 # s @ [CHR 0x22]"
| "json_text (Arr xs) = CHR ''['' # json_elems xs @ '']''"
| "json_text (Obj kvs) = CHR ''{'' # json_members kvs @ ''}''"
| "json_elems [] = []"
| "json_elems (x # xs) = json_text x @ (if xs = [] then [] else CHR '','' # json_elems xs)"
| "json_members [] = []"
| "json_members ((k, v) # kvs) =
     CHR 0x22 # k @ [CHR 0x22, CHR '':''] @ json_text v
     @ (if kvs = [] then [] else CHR '','' # json_members kvs)"

text \<open>A \<open>$.parseJSON\<close> for the examples: it knows the texts below and throws on any other.\<close>

definition known_texts :: "(string \<times> jsval) list" where
  \<open>known_texts =
     [(''{"jsonrpc":"2.0","id":1,"result":"A"}'',
       Obj [(''jsonrpc'', Str ''2.0''), (''id'', Num 1), (''result'', Str ''A'')]),
      (''{"jsonrpc":"2.0","id":1,"error":"E"}'',
       Obj [(''jsonrpc'', Str ''2.0''), (''id'', Num 1), (''error'', Str ''E'')]),
      (''{"jsonrpc":"2.0","id":7,"result":"X"}'',
       Obj [(''jsonrpc'', Str ''2.0''), (''id'', Num 7), (''result'', Str ''X'')]),
      (''{"jsonrpc":"2.0","id":null,"error":"E"}'',
       Obj [(''jsonrpc'', Str ''2.0''), (''id'', Null), (''error'', Str ''E'')])]\<close>

text \<open>The names that \<open>Object.prototype\<close> has on the page of the examples.\<close>

definition object_prototype_names :: "string list" where
  "object_prototype_names =
     [''constructor'', ''toString'', ''toLocaleString'', ''valueOf'', ''hasOwnProperty'',
      ''isPrototypeOf'', ''propertyIsEnumerable'', ''__proto__'', ''__defineGetter__'',
      ''__defineSetter__'', ''__lookupGetter__'', ''__lookupSetter__'']"

definition page :: env where
  "page = \<lparr>toJSON = json_text, parseJSON = map_of known_texts,
            console_in_window = True, WebSocket_in_window = True,
            inherited = (\<lambda>k. k \<in> set object_prototype_names)\<rparr>"

text \<open>A page on which no client has done anything yet.\<close>

definition fresh_world :: world where
  "fresh_world =
     \<lparr>p_ws_callbacks = Map.empty,
      sockets = (\<lambda>r. \<lparr>sock_url = [], readyState = 3, sock_onopen = None,
                       sock_onmessage = None, sent = []\<rparr>),
      next_socket = 0, trace = []\<rparr>"

text \<open>Clients of the three kinds: HTTP only, WebSocket, and with no backend at all.\<close>

definition http_client :: client where
  "http_client =
     JsonRpcClient (Fun ''wsOnMessage'')
       \<lparr>ajaxUrl = Some ''/backend/jsonrpc'', socketUrl = None, onmessage = None,
        getSocket = Default_getSocket\<rparr>"

definition ws_client :: client where
  "ws_client =
     JsonRpcClient (Fun ''wsOnMessage'')
       \<lparr>ajaxUrl = None, socketUrl = Some ''ws://backend/jsonrpc'',
        onmessage = Some (Fun ''other''), getSocket = Default_getSocket\<rparr>"

definition no_backend_client :: client where
  "no_backend_client =
     JsonRpcClient (Fun ''wsOnMessage'')
       \<lparr>ajaxUrl = None, socketUrl = None, onmessage = None, getSocket = Default_getSocket\<rparr>"

definition second_ws_client :: client where
  "second_ws_client =
     JsonRpcClient (Fun ''wsOnMessage2'')
       \<lparr>ajaxUrl = None, socketUrl = Some ''ws://backend/jsonrpc'',
        onmessage = None, getSocket = Default_getSocket\<rparr>"

text \<open>A page on which call 1 waits for its response.\<close>

definition waiting_world :: world where
  "waiting_world =
     fresh_world\<lparr>p_ws_callbacks :=
       [''1'' \<mapsto> \<lparr>success_cb = Some (Fun ''ok''), error_cb = Some (Fun ''failed'')\<rparr>]\<rparr>"


text \<open>Messages of a socket.\<close>

definition result_event :: event where
  \<open>result_event = \<lparr>event_data = ''{"jsonrpc":"2.0","id":1,"result":"A"}''\<rparr>\<close>

definition error_event :: event where
  \<open>error_event = \<lparr>event_data = ''{"jsonrpc":"2.0","id":1,"error":"E"}''\<rparr>\<close>

definition stray_event :: event where
  \<open>stray_event = \<lparr>event_data = ''{"jsonrpc":"2.0","id":7,"result":"X"}''\<rparr>\<close>

definition null_event :: event where
  \<open>null_event = \<lparr>event_data = ''{"jsonrpc":"2.0","id":null,"error":"E"}''\<rparr>\<close>

section \<open>Facts about the building blocks\<close>

subsection \<open>Property names of numbers\<close>

lemma num_str_1: "num_str 1 = ''1''"
  by (simp add: num_str_def dec.simps)

lemma num_str_7: "num_str 7 = ''7''"
  by (simp add: num_str_def dec.simps)

lemma last_dec: "last (dec n) = ''0123456789'' ! (n mod 10)"
  by (subst dec.simps) simp

lemma digit_not_l: "k < 10 \<Longrightarrow> ''0123456789'' ! k \<noteq> CHR ''l''"
proof -
  assume "k < 10"
  then have "k \<in> {0, 1, 2, 3, 4, 5, 6, 7, 8, 9}" by auto
  then show ?thesis by auto
qed

lemma num_str_not_null: "num_str i \<noteq> ''null''"
proof (cases "i < 0")
  case True
  then show ?thesis by (simp add: num_str_def)
next
  case False
  have "last (dec (nat i)) \<noteq> last ''null''"
    using digit_not_l [of "nat i mod 10"] by (simp add: last_dec)
  then have "dec (nat i) \<noteq> ''null''" by metis
  with False show ?thesis by (simp add: num_str_def)
qed

lemma map_of_has_property:
  "map_of kvs k = Some v \<Longrightarrow> has_property k (Obj kvs) = Some True"
  by (auto dest: map_of_SomeD intro: rev_image_eqI)

lemma call_request_id:
  "has_property ''id'' (call_request c method params) = Some True"
  "dot (call_request c method params) ''id'' = Num (p_current_id c)"
  by (simp_all add: call_request_def dot_def)

subsection \<open>Getting a socket\<close>

lemma getSocket_None_same:
  "options_getSocket e c w = (None, c', w') \<Longrightarrow> c' = c \<and> w' = w"
  by (auto simp: options_getSocket_def p_getSocket_def Let_def
           split: getSocket_option.splits option.splits if_splits)

lemma getSocket_with_id:
  "options_getSocket e (c\<lparr>p_current_id := n\<rparr>) w
   = (case options_getSocket e c w of (r, c', w') \<Rightarrow> (r, c'\<lparr>p_current_id := n\<rparr>, w'))"
  by (auto simp: options_getSocket_def p_getSocket_def Let_def
           split: getSocket_option.splits option.splits if_splits)

lemma getSocket_current_id:
  "p_current_id (fst (snd (options_getSocket e c w))) = p_current_id c"
  by (auto simp: options_getSocket_def p_getSocket_def Let_def
           split: getSocket_option.splits option.splits if_splits)

lemma getSocket_callbacks:
  "p_ws_callbacks (snd (snd (options_getSocket e c w))) = p_ws_callbacks w"
  by (auto simp: options_getSocket_def p_getSocket_def Let_def
           split: getSocket_option.splits option.splits if_splits)

lemma getSocket_trace:
  "trace (snd (snd (options_getSocket e c w))) = trace w"
  by (auto simp: options_getSocket_def p_getSocket_def Let_def
           split: getSocket_option.splits option.splits if_splits)

lemma default_getSocket_new:
  assumes "getSocket (options c) = Default_getSocket"
      and "socketUrl (options c) = Some u"
      and "WebSocket_in_window e"
      and "p_ws_socket c = None"
  shows "fst (options_getSocket e c w) = Some (next_socket w)"
  using assms by (simp add: options_getSocket_def p_getSocket_def Let_def)

subsection \<open>The id counter\<close>

lemma increment_min: "n \<le> 9007199254740992 \<Longrightarrow> increment n = min (n + 1) 9007199254740992"
  by (simp add: increment_def)

lemma increment_funpow:
  "n \<le> 9007199254740992 \<Longrightarrow> (increment ^^ k) n = min (n + int k) 9007199254740992"
  by (induction k) (auto simp: increment_def)

lemma call_current_id:
  "p_current_id (fst (state_of (call e method params success error cw)))
   = increment (p_current_id (fst cw))"
proof -
  obtain r c2 w2 where g:
    "options_getSocket e ((fst cw)\<lparr>p_current_id := increment (p_current_id (fst cw))\<rparr>) (snd cw)
     = (r, c2, w2)"
    by (metis prod_cases3)
  have "p_current_id c2 = increment (p_current_id (fst cw))"
    using getSocket_current_id
      [of e "(fst cw)\<lparr>p_current_id := increment (p_current_id (fst cw))\<rparr>" "snd cw"] g
    by simp
  then show ?thesis
    using g by (simp add: call_def Let_def split: option.splits)
qed

lemma notify_current_id:
  "p_current_id (fst (state_of (notify e method params cw))) = p_current_id (fst cw)"
proof -
  obtain r c2 w2 where g: "options_getSocket e (fst cw) (snd cw) = (r, c2, w2)"
    by (metis prod_cases3)
  have "p_current_id c2 = p_current_id (fst cw)"
    using getSocket_current_id [of e "fst cw" "snd cw"] g by simp
  then show ?thesis
    using g by (simp add: notify_def Let_def split: option.splits)
qed

lemma endBatch_current_id:
  "p_current_id (fst (endBatch e all_done_cb error cw)) = p_current_id (fst cw)"
  by (simp add: endBatch_def Let_def split: option.splits prod.splits)

lemma perform_current_id:
  "p_current_id (fst (state_of (perform e a cw)))
   = (if is_call a then increment (p_current_id (fst cw)) else p_current_id (fst cw))"
  by (cases a)
     (simp_all add: call_current_id notify_current_id endBatch_current_id startBatch_def
        split: option.splits outcome.splits)

lemma session_current_id:
  "p_current_id (fst cw) \<le> 9007199254740992
   \<Longrightarrow> p_current_id (fst (session e as cw))
       = min (p_current_id (fst cw) + int (length (filter is_call as))) 9007199254740992"
proof (induction as arbitrary: cw)
  case Nil
  then show ?case by simp
next
  case (Cons a as)
  have le: "p_current_id (fst (state_of (perform e a cw))) \<le> 9007199254740992"
    using Cons.prems by (simp add: perform_current_id increment_def)
  show ?case
    using Cons.IH [OF le] Cons.prems
    by (simp add: perform_current_id increment_def add.assoc del: perform.simps)
qed

subsection \<open>What a call and a notification hand on\<close>

lemma wsCall_expanded:
  "p_wsCall e socket req success error w
   = w\<lparr>sockets := (sockets w)
          (socket :=
             if readyState (sockets w socket) < 1
             then (sockets w socket)\<lparr>sock_onopen := Some (toJSON e req)\<rparr>
             else (sockets w socket)\<lparr>sent := sent (sockets w socket) @ [toJSON e req]\<rparr>),
        p_ws_callbacks :=
          if has_property ''id'' req = Some True \<and> success \<noteq> None
          then (p_ws_callbacks w)
                 (prop_key (dot req ''id'') \<mapsto> \<lparr>success_cb = success, error_cb = error\<rparr>)
          else p_ws_callbacks w\<rparr>"
  by (cases success) (simp_all add: p_wsCall_def socket_send_def Let_def)

lemma call_expanded:
  "call e method params success error cw
   = (let req = Obj [(''jsonrpc'', Str ''2.0''), (''method'', Str method), (''params'', params),
                     (''id'', Num (p_current_id (fst cw)))];
          c1 = (fst cw)\<lparr>p_current_id := increment (p_current_id (fst cw))\<rparr>
      in case options_getSocket e c1 (snd cw) of
           (Some socket, c2, w2) \<Rightarrow>
             Returned
               (c2,
                w2\<lparr>sockets := (sockets w2)
                      (socket :=
                         if readyState (sockets w2 socket) < 1
                         then (sockets w2 socket)\<lparr>sock_onopen := Some (toJSON e req)\<rparr>
                         else (sockets w2 socket)
                                \<lparr>sent := sent (sockets w2 socket) @ [toJSON e req]\<rparr>),
                    p_ws_callbacks :=
                      if success \<noteq> None
                      then (p_ws_callbacks w2)
                             (num_str (p_current_id (fst cw))
                              \<mapsto> \<lparr>success_cb = success, error_cb = error\<rparr>)
                      else p_ws_callbacks w2\<rparr>)
         | (None, c2, w2) \<Rightarrow>
             (case p_batch c2 of
                Some b \<Rightarrow>
                  Returned
                    (c2\<lparr>p_batch := Some (b @
                       [\<lparr>success_cb = success, error_cb = error, request = req\<rparr>])\<rparr>, w2)
              | None \<Rightarrow>
                  (case ajaxUrl (options c2) of
                     None \<Rightarrow>
                       Thrown (ThrownString
                         ''$.JsonRpcClient.call used with no websocket and no http endpoint.'')
                         (c2, w2)
                   | Some u \<Rightarrow>
                       Returned
                         (c2,
                          w2\<lparr>trace := trace w2 @
                            [Ajax \<lparr>ajax_url = Some u, ajax_data = toJSON e req,
                                   ajax_callbacks = CallCb success error\<rparr>]\<rparr>))))"
  by (simp add: call_def Let_def call_request_def wsCall_expanded dot_def ajax_def
        split: prod.splits option.splits)

lemma notify_expanded:
  "notify e method params cw
   = (let req = Obj [(''jsonrpc'', Str ''2.0''), (''method'', Str method), (''params'', params)]
      in case options_getSocket e (fst cw) (snd cw) of
           (Some socket, c2, w2) \<Rightarrow>
             Returned
               (c2,
                w2\<lparr>sockets := (sockets w2)
                      (socket :=
                         if readyState (sockets w2 socket) < 1
                         then (sockets w2 socket)\<lparr>sock_onopen := Some (toJSON e req)\<rparr>
                         else (sockets w2 socket)
                                \<lparr>sent := sent (sockets w2 socket) @ [toJSON e req]\<rparr>)\<rparr>)
         | (None, c2, w2) \<Rightarrow>
             (case p_batch c2 of
                Some b \<Rightarrow>
                  Returned
                    (c2\<lparr>p_batch := Some (b @
                       [\<lparr>success_cb = None, error_cb = None, request = req\<rparr>])\<rparr>, w2)
              | None \<Rightarrow>
                  (case ajaxUrl (options c2) of
                     None \<Rightarrow>
                       Thrown (ThrownString
                         ''$.JsonRpcClient.notify used with no websocket and no http endpoint.'')
                         (c2, w2)
                   | Some u \<Rightarrow>
                       Returned
                         (c2,
                          w2\<lparr>trace := trace w2 @
                            [Ajax \<lparr>ajax_url = Some u, ajax_data = toJSON e req,
                                   ajax_callbacks = NotifyCb\<rparr>]\<rparr>))))"
  by (simp add: notify_def Let_def notify_request_def wsCall_expanded ajax_def
        split: prod.splits option.splits)

subsection \<open>Calls of a client that has only HTTP\<close>

lemma http_call:
  assumes "getSocket (options c) = Default_getSocket"
      and "socketUrl (options c) = None"
      and "p_batch c = None"
      and "ajaxUrl (options c) = Some u"
  shows "call e method params success error (c, w)
         = Returned
             (c\<lparr>p_current_id := increment (p_current_id c)\<rparr>,
              w\<lparr>trace := trace w @
                [Ajax \<lparr>ajax_url = Some u,
                       ajax_data = toJSON e
                         (Obj [(''jsonrpc'', Str ''2.0''), (''method'', Str method),
                               (''params'', params), (''id'', Num (p_current_id c))]),
                       ajax_callbacks = CallCb success error\<rparr>]\<rparr>)"
  using assms
  by (simp add: call_expanded Let_def options_getSocket_def p_getSocket_def)

lemma http_calls:
  assumes "getSocket (options c) = Default_getSocket"
      and "socketUrl (options c) = None"
      and "p_batch c = None"
      and "ajaxUrl (options c) = Some u"
  shows "session e (replicate k (Call method params success error)) (c, w)
         = (c\<lparr>p_current_id := (increment ^^ k) (p_current_id c)\<rparr>,
            w\<lparr>trace := trace w @
              map (\<lambda>i. Ajax \<lparr>ajax_url = Some u,
                              ajax_data = toJSON e
                                (Obj [(''jsonrpc'', Str ''2.0''), (''method'', Str method),
                                      (''params'', params),
                                      (''id'', Num ((increment ^^ i) (p_current_id c)))]),
                              ajax_callbacks = CallCb success error\<rparr>)
                  [0..<k]\<rparr>)"
  using assms
proof (induction k arbitrary: c w)
  case 0
  show ?case by simp
next
  case (Suc k)
  let ?c = "c\<lparr>p_current_id := increment (p_current_id c)\<rparr>"
  have o: "getSocket (options ?c) = Default_getSocket" "socketUrl (options ?c) = None"
    "p_batch ?c = None" "ajaxUrl (options ?c) = Some u"
    using Suc.prems by simp_all
  show ?case
    by (simp add: http_call [OF Suc.prems] Suc.IH [OF o] map_upt_Suc funpow_swap1
          del: upt_Suc funpow.simps)
       (simp add: funpow_swap1)
qed

lemma http_calls_nth:
  assumes "getSocket (options c) = Default_getSocket"
      and "socketUrl (options c) = None"
      and "p_batch c = None"
      and "ajaxUrl (options c) = Some u"
      and "p_current_id c \<le> 9007199254740992"
      and "i < k"
  shows "trace (snd (session e (replicate k (Call method params success error)) (c, w)))
           ! (length (trace w) + i)
         = Ajax \<lparr>ajax_url = Some u,
                 ajax_data = toJSON e
                   (Obj [(''jsonrpc'', Str ''2.0''), (''method'', Str method),
                         (''params'', params),
                         (''id'', Num (min (p_current_id c + int i) 9007199254740992))]),
                 ajax_callbacks = CallCb success error\<rparr>"
  using assms(6)
  by (simp add: http_calls [OF assms(1-4)] increment_funpow [OF assms(5)] nth_append
        del: upt_Suc)

subsection \<open>Dispatch over a socket\<close>

lemma wsCall_callbacks:
  "p_ws_callbacks (p_wsCall e s req success error w)
   = (if has_property ''id'' req = Some True \<and> success \<noteq> None
      then (p_ws_callbacks w)
             (prop_key (dot req ''id'') \<mapsto> \<lparr>success_cb = success, error_cb = error\<rparr>)
      else p_ws_callbacks w)"
  by (cases success) (simp_all add: p_wsCall_def socket_send_def Let_def)

lemma wsCall_trace: "trace (p_wsCall e s req success error w) = trace w"
  by (simp add: p_wsCall_def socket_send_def Let_def)

lemma call_on_socket:
  assumes "options_getSocket e c w = (Some s, c', w')"
  shows "call e method params success error (c, w)
         = Returned (c'\<lparr>p_current_id := increment (p_current_id c)\<rparr>,
                     p_wsCall e s (call_request c method params) success error w')"
  using assms by (simp add: call_def Let_def getSocket_with_id)

lemma call_registers:
  assumes "fst (options_getSocket e c w) = Some s"
  shows "p_ws_callbacks (snd (state_of (call e method params (Some g) error (c, w))))
         = (p_ws_callbacks w)
             (num_str (p_current_id c) \<mapsto> \<lparr>success_cb = Some g, error_cb = error\<rparr>)"
proof -
  obtain c' w' where g: "options_getSocket e c w = (Some s, c', w')"
    using assms by (metis fst_conv prod_cases3)
  have "p_ws_callbacks w' = p_ws_callbacks w"
    using getSocket_callbacks [of e c w] g by simp
  then show ?thesis
    by (simp add: call_on_socket [OF g] wsCall_callbacks call_request_id)
qed

lemma call_on_socket_trace:
  assumes "fst (options_getSocket e c w) = Some s"
  shows "trace (snd (state_of (call e method params success error (c, w)))) = trace w"
proof -
  obtain c' w' where g: "options_getSocket e c w = (Some s, c', w')"
    using assms by (metis fst_conv prod_cases3)
  have "trace w' = trace w"
    using getSocket_trace [of e c w] g by simp
  then show ?thesis
    by (simp add: call_on_socket [OF g] wsCall_trace)
qed








subsection \<open>Messages of a socket\<close>

lemma fallback_returns:
  "fallback c ev w
   = Returned (case onmessage (options c) of
                 None \<Rightarrow> w
               | Some f \<Rightarrow> w\<lparr>trace := trace w @ [Invoke f [event_val ev]]\<rparr>)"
  by (simp add: fallback_def invoke_def split: option.splits)

lemma wsOnMessage_try_response:
  assumes "parseJSON e (event_data ev) = Some (Obj kvs)"
      and "map_of kvs ''jsonrpc'' = Some (Str ''2.0'')"
  shows "wsOnMessage_try e ev w
         = (case in_and_callbacks ''result'' (Obj kvs) w of
              Some h \<Rightarrow> delete_and_run (success_cb h) ''result'' (Obj kvs) w
            | None \<Rightarrow>
                (case in_and_callbacks ''error'' (Obj kvs) w of
                   Some h \<Rightarrow> delete_and_run (error_cb h) ''error'' (Obj kvs) w
                 | None \<Rightarrow> (False, w)))"
  using assms map_of_has_property [OF assms(2)]
  by (simp add: wsOnMessage_try_def typeof_object_def)

lemma ws_no_entry:
  assumes "parseJSON e (event_data ev) = Some (Obj kvs)"
      and "map_of kvs ''jsonrpc'' = Some (Str ''2.0'')"
      and "p_ws_callbacks w (prop_key (dot (Obj kvs) ''id'')) = None"
  shows "p_wsOnMessage e c ev w = fallback c ev w"
  using assms(3)
  by (simp add: p_wsOnMessage_def wsOnMessage_try_response [OF assms(1,2)]
        in_and_callbacks_def)

lemma ws_entry:
  assumes "parseJSON e (event_data ev) = Some (Obj kvs)"
      and "map_of kvs ''jsonrpc'' = Some (Str ''2.0'')"
      and "p_ws_callbacks w (prop_key (dot (Obj kvs) ''id'')) = Some h"
      and "''result'' \<in> set (map fst kvs) \<or> ''error'' \<in> set (map fst kvs)"
  shows "p_wsOnMessage e c ev w
         = (case invoke (if ''result'' \<in> set (map fst kvs) then success_cb h else error_cb h)
                  [dot (Obj kvs) (if ''result'' \<in> set (map fst kvs) then ''result'' else ''error'')]
                  (w\<lparr>p_ws_callbacks :=
                       (p_ws_callbacks w)(prop_key (dot (Obj kvs) ''id'') := None)\<rparr>) of
              Returned w2 \<Rightarrow> Returned w2
            | Thrown x w2 \<Rightarrow> fallback c ev w2)"
  using assms(3,4)
  by (auto simp: p_wsOnMessage_def wsOnMessage_try_response [OF assms(1,2)]
        in_and_callbacks_def delete_and_run_def Let_def split: outcome.splits)

lemma ws_entry_gone:
  assumes "parseJSON e (event_data ev) = Some (Obj kvs)"
      and "map_of kvs ''jsonrpc'' = Some (Str ''2.0'')"
      and "p_ws_callbacks w (prop_key (dot (Obj kvs) ''id'')) = Some h"
      and "''result'' \<in> set (map fst kvs) \<or> ''error'' \<in> set (map fst kvs)"
  shows "p_ws_callbacks (state_of (p_wsOnMessage e c ev w)) (prop_key (dot (Obj kvs) ''id''))
         = None"
  unfolding ws_entry [OF assms]
  by (simp add: invoke_def fallback_returns split: option.splits)

lemma ws_result_entry:
  assumes "parseJSON e (event_data ev) = Some (Obj kvs)"
      and "map_of kvs ''jsonrpc'' = Some (Str ''2.0'')"
      and "map_of kvs ''id'' = Some rid"
      and "map_of kvs ''result'' = Some v"
      and "p_ws_callbacks w (prop_key rid) = Some h"
      and "success_cb h = Some g"
  shows "p_wsOnMessage e c ev w
         = Returned (w\<lparr>p_ws_callbacks := (p_ws_callbacks w)(prop_key rid := None),
                       trace := trace w @ [Invoke g [v]]\<rparr>)"
proof -
  have r: "''result'' \<in> set (map fst kvs)"
    using map_of_has_property [OF assms(4)] by simp
  have i: "dot (Obj kvs) ''id'' = rid" "dot (Obj kvs) ''result'' = v"
    using assms(3,4) by (simp_all add: dot_def)
  have "p_ws_callbacks w (prop_key (dot (Obj kvs) ''id'')) = Some h"
    using assms(5) i by simp
  from ws_entry [OF assms(1,2) this, of c] r i assms(6)
  show ?thesis by (simp add: invoke_def)
qed

lemma page_parses:
  \<open>parseJSON page ''{"jsonrpc":"2.0","id":1,"result":"A"}''
     = Some (Obj [(''jsonrpc'', Str ''2.0''), (''id'', Num 1), (''result'', Str ''A'')])\<close>
  \<open>parseJSON page ''{"jsonrpc":"2.0","id":1,"error":"E"}''
     = Some (Obj [(''jsonrpc'', Str ''2.0''), (''id'', Num 1), (''error'', Str ''E'')])\<close>
  \<open>parseJSON page ''{"jsonrpc":"2.0","id":7,"result":"X"}''
     = Some (Obj [(''jsonrpc'', Str ''2.0''), (''id'', Num 7), (''result'', Str ''X'')])\<close>
  \<open>parseJSON page ''{"jsonrpc":"2.0","id":null,"error":"E"}''
     = Some (Obj [(''jsonrpc'', Str ''2.0''), (''id'', Null), (''error'', Str ''E'')])\<close>
  by (simp_all add: page_def known_texts_def)

subsection \<open>No entry is ever stored under the name of a null id\<close>

lemma batchCb_loop_callbacks:
  "p_ws_callbacks (state_of (batchCb_loop e rs hs w)) = p_ws_callbacks w"
proof (induction rs arbitrary: w)
  case Nil
  show ?case by simp
next
  case (Cons r rs)
  show ?case
    by (simp add: Cons console_log_def invoke_def Let_def split: option.splits bool.splits)
qed

lemma ajax_success_callbacks:
  "p_ws_callbacks (state_of (ajax_success e cb body w)) = p_ws_callbacks w"
proof (cases cb)
  case (BatchCb hs a f)
  then show ?thesis
    using batchCb_loop_callbacks [of e "for_in_values body" hs w]
    by (cases "batchCb_loop e (for_in_values body) hs w")
       (simp_all add: p_batchCb_def invoke_def split: option.splits)
qed (simp_all add: invoke_def split: option.splits bool.splits)

lemma wsOnMessage_null:
  "p_ws_callbacks w ''null'' = None
   \<Longrightarrow> p_ws_callbacks (state_of (p_wsOnMessage e c ev w)) ''null'' = None"
  by (auto simp: p_wsOnMessage_def wsOnMessage_try_def delete_and_run_def Let_def
        fallback_returns invoke_def
        split: option.splits bool.splits if_splits prod.splits outcome.splits)

lemma call_null:
  assumes "p_ws_callbacks (snd cw) ''null'' = None"
  shows "p_ws_callbacks (snd (state_of (call e method params success error cw))) ''null'' = None"
proof -
  obtain r c2 w2 where g:
    "options_getSocket e ((fst cw)\<lparr>p_current_id := increment (p_current_id (fst cw))\<rparr>) (snd cw)
     = (r, c2, w2)"
    by (metis prod_cases3)
  have "p_ws_callbacks w2 = p_ws_callbacks (snd cw)"
    using getSocket_callbacks
      [of e "(fst cw)\<lparr>p_current_id := increment (p_current_id (fst cw))\<rparr>" "snd cw"] g
    by simp
  then show ?thesis
    using g assms
    by (simp add: call_def Let_def wsCall_callbacks ajax_def call_request_def dot_def
          num_str_not_null num_str_not_null [THEN not_sym] split: option.splits)
qed

lemma notify_null:
  assumes "p_ws_callbacks (snd cw) ''null'' = None"
  shows "p_ws_callbacks (snd (state_of (notify e method params cw))) ''null'' = None"
proof -
  obtain r c2 w2 where g: "options_getSocket e (fst cw) (snd cw) = (r, c2, w2)"
    by (metis prod_cases3)
  have "p_ws_callbacks w2 = p_ws_callbacks (snd cw)"
    using getSocket_callbacks [of e "fst cw" "snd cw"] g by simp
  then show ?thesis
    using g assms
    by (simp add: notify_def Let_def wsCall_callbacks ajax_def split: option.splits)
qed

lemma perform_null:
  assumes "p_ws_callbacks (snd cw) ''null'' = None"
  shows "p_ws_callbacks (snd (state_of (perform e a cw))) ''null'' = None"
proof (cases a)
  case (WsMessage ev)
  then show ?thesis
    using wsOnMessage_null [OF assms, of e "fst cw" ev]
    by (cases "p_wsOnMessage e (fst cw) ev (snd cw)") simp_all
next
  case (AjaxSuccess cb body)
  then show ?thesis
    using ajax_success_callbacks [of e cb body "snd cw"] assms
    by (cases "ajax_success e cb body (snd cw)") simp_all
qed (use assms in \<open>simp_all add: call_null notify_null endBatch_def ajax_def socket_open_def
       socket_send_def Let_def split: option.splits prod.splits\<close>)

lemma null_never_registered:
  "p_ws_callbacks (snd cw) ''null'' = None
   \<Longrightarrow> p_ws_callbacks (snd (session e as cw)) ''null'' = None"
  by (induction as arbitrary: cw) (simp_all add: perform_null del: perform.simps)

section \<open>The claims\<close>

text \<open>
  C1. The code does not do what the claim says. A batch of two calls is sent; the response
  array answers call 2 with a result and call 1 with an error, both ids being in
  \<open>handlers\<close>. On a page with a console, \<open>_batchCb\<close> logs both elements and invokes neither
  \<open>b_ok\<close> nor \<open>a_failed\<close>: its two tests \<open>response.id in handlers\<close> select the logging
  branch when the id is found, and the branch that reads \<open>handlers[response.id]\<close> when it is
  not.
\<close>

theorem batch_results_are_logged_not_delivered:
  \<open>trace (snd (session page
      [StartBatch,
       Call ''a'' (Arr []) (Some (Fun ''a_ok'')) (Some (Fun ''a_failed'')),
       Call ''b'' (Arr []) (Some (Fun ''b_ok'')) (Some (Fun ''b_failed'')),
       EndBatch (Some (Fun ''all_done'')) None]
      (http_client, fresh_world)))
   = [Ajax \<lparr>ajax_url = Some ''/backend/jsonrpc'',
            ajax_data = ''[{"jsonrpc":"2.0","method":"a","params":[],"id":1},{"jsonrpc":"2.0","method":"b","params":[],"id":2}]'',
            ajax_callbacks =
              BatchCb
                [(''2'', \<lparr>success_cb = Some (Fun ''b_ok''), error_cb = Some (Fun ''b_failed'')\<rparr>),
                 (''1'', \<lparr>success_cb = Some (Fun ''a_ok''), error_cb = Some (Fun ''a_failed'')\<rparr>)]
                (Some (Fun ''all_done'')) None\<rparr>]
   \<and> ajax_success page
       (BatchCb
          [(''2'', \<lparr>success_cb = Some (Fun ''b_ok''), error_cb = Some (Fun ''b_failed'')\<rparr>),
           (''1'', \<lparr>success_cb = Some (Fun ''a_ok''), error_cb = Some (Fun ''a_failed'')\<rparr>)]
          (Some (Fun ''all_done'')) None)
       (Arr [Obj [(''jsonrpc'', Str ''2.0''), (''id'', Num 2), (''result'', Str ''B'')],
             Obj [(''jsonrpc'', Str ''2.0''), (''id'', Num 1), (''error'', Str ''E'')]])
       fresh_world
     = Returned (fresh_world\<lparr>trace :=
         [ConsoleLog (Obj [(''jsonrpc'', Str ''2.0''), (''id'', Num 2), (''result'', Str ''B'')]),
          ConsoleLog (Obj [(''jsonrpc'', Str ''2.0''), (''id'', Num 1), (''error'', Str ''E'')]),
          Invoke (Fun ''all_done'')
            [Arr [Obj [(''jsonrpc'', Str ''2.0''), (''id'', Num 2), (''result'', Str ''B'')],
                  Obj [(''jsonrpc'', Str ''2.0''), (''id'', Num 1), (''error'', Str ''E'')]]]]\<rparr>)\<close>
  by (simp add: call_def call_request_def options_getSocket_def p_getSocket_def http_client_def
        JsonRpcClient_def Let_def ajax_def page_def fresh_world_def invoke_def dot_def
        num_str_def dec.simps startBatch_def endBatch_def p_batchCb_def console_log_def
        in_handlers_def increment_def)

text \<open>
  C2. The code does not do what the claim says. A single call goes out over HTTP and the
  exchange succeeds with a body that has an \<open>error\<close> member: the \<open>success\<close> closure of
  \<open>call\<close> invokes the error continuation with the error object and then, having no \<open>else\<close>,
  the success continuation as well, with \<open>data.result\<close>, which is \<open>undefined\<close>.
\<close>

theorem single_call_error_runs_both_callbacks:
  \<open>trace (snd (state_of (call page ''bar'' (Arr []) (Some (Fun ''ok'')) (Some (Fun ''failed''))
      (http_client, fresh_world))))
   = [Ajax \<lparr>ajax_url = Some ''/backend/jsonrpc'',
            ajax_data = ''{"jsonrpc":"2.0","method":"bar","params":[],"id":1}'',
            ajax_callbacks = CallCb (Some (Fun ''ok'')) (Some (Fun ''failed''))\<rparr>]
   \<and> ajax_success page (CallCb (Some (Fun ''ok'')) (Some (Fun ''failed'')))
       (Obj [(''jsonrpc'', Str ''2.0''), (''id'', Num 1),
             (''error'', Obj [(''code'', Num (- 32601)), (''message'', Str ''Method not found'')])])
       fresh_world
     = Returned (fresh_world\<lparr>trace :=
         [Invoke (Fun ''failed'')
            [Obj [(''code'', Num (- 32601)), (''message'', Str ''Method not found'')]],
          Invoke (Fun ''ok'') [Undefined]]\<rparr>)\<close>
  by (simp add: call_def call_request_def options_getSocket_def p_getSocket_def http_client_def
        JsonRpcClient_def Let_def ajax_def page_def fresh_world_def invoke_def dot_def
        num_str_def dec.simps)

text \<open>
  C3. The code does not do what the claim says. The response array of a batch has an
  element whose id, 7, is not in \<open>handlers\<close>: \<open>_batchCb\<close> reads
  \<open>handlers[7].success_cb\<close>, which throws a TypeError out of the loop, and \<open>all_done\<close> is
  never invoked.
\<close>

theorem batch_unknown_id_skips_all_done:
  "ajax_success page
     (BatchCb [(''1'', \<lparr>success_cb = Some (Fun ''a_ok''), error_cb = Some (Fun ''a_failed'')\<rparr>)]
        (Some (Fun ''all_done'')) None)
     (Arr [Obj [(''jsonrpc'', Str ''2.0''), (''id'', Num 7), (''result'', Str ''X'')]])
     fresh_world
   = Thrown TypeError fresh_world"
  by (simp add: p_batchCb_def page_def dot_def num_str_def dec.simps in_handlers_def
        object_prototype_names_def)

text \<open>
  C4. A message arrives on a socket and parses as a JSON-RPC 2.0 object with a \<open>result\<close>
  or an \<open>error\<close>, and \<open>_ws_callbacks\<close> has an entry \<open>h\<close> under the name of its id. Then
  \<open>_wsOnMessage\<close> invokes the matching continuation (\<open>success_cb\<close> for a result, else
  \<open>error_cb\<close>) in a world from which the entry has already been deleted; should that
  continuation be \<open>undefined\<close>, the TypeError is caught and the fallback handler runs. Either
  way the entry is gone afterwards, and a second response with the same id, through
  whichever client \<open>c'\<close> it arrives, finds no entry and invokes no continuation: it gets
  the treatment of a message that is no response, the fallback.
\<close>

theorem ws_response_resolves_once:
  assumes "parseJSON e (event_data ev) = Some (Obj kvs)"
      and "map_of kvs ''jsonrpc'' = Some (Str ''2.0'')"
      and "p_ws_callbacks w (prop_key (dot (Obj kvs) ''id'')) = Some h"
      and "''result'' \<in> set (map fst kvs) \<or> ''error'' \<in> set (map fst kvs)"
      and "parseJSON e (event_data ev') = Some (Obj kvs')"
      and "map_of kvs' ''jsonrpc'' = Some (Str ''2.0'')"
      and "prop_key (dot (Obj kvs') ''id'') = prop_key (dot (Obj kvs) ''id'')"
  shows "p_wsOnMessage e c ev w
         = (case invoke (if ''result'' \<in> set (map fst kvs) then success_cb h else error_cb h)
                  [dot (Obj kvs) (if ''result'' \<in> set (map fst kvs) then ''result'' else ''error'')]
                  (w\<lparr>p_ws_callbacks :=
                       (p_ws_callbacks w)(prop_key (dot (Obj kvs) ''id'') := None)\<rparr>) of
              Returned w2 \<Rightarrow> Returned w2
            | Thrown x w2 \<Rightarrow> fallback c ev w2)
         \<and> p_ws_callbacks (state_of (p_wsOnMessage e c ev w)) (prop_key (dot (Obj kvs) ''id''))
           = None
         \<and> p_wsOnMessage e c' ev' (state_of (p_wsOnMessage e c ev w))
           = fallback c' ev' (state_of (p_wsOnMessage e c ev w))"
proof -
  have gone:
    "p_ws_callbacks (state_of (p_wsOnMessage e c ev w)) (prop_key (dot (Obj kvs') ''id'')) = None"
    using ws_entry_gone [OF assms(1-4)] assms(7) by simp
  show ?thesis
    using ws_entry [OF assms(1-4)] ws_entry_gone [OF assms(1-4)]
      ws_no_entry [OF assms(5,6) gone]
    by simp
qed

text \<open>
  C4 at work: call 1 is waiting; its result arrives and \<open>ok\<close> gets it; an error for the
  same id arrives afterwards and goes to the fallback handler \<open>other\<close>, not to \<open>failed\<close>.
\<close>

theorem ws_response_resolves_once_witness:
  "p_ws_callbacks waiting_world ''1''
     = Some \<lparr>success_cb = Some (Fun ''ok''), error_cb = Some (Fun ''failed'')\<rparr>
   \<and> trace (state_of (p_wsOnMessage page ws_client result_event waiting_world))
     = [Invoke (Fun ''ok'') [Str ''A'']]
   \<and> p_ws_callbacks (state_of (p_wsOnMessage page ws_client result_event waiting_world)) ''1''
     = None
   \<and> trace (state_of (p_wsOnMessage page ws_client error_event
        (state_of (p_wsOnMessage page ws_client result_event waiting_world))))
     = [Invoke (Fun ''ok'') [Str ''A''], Invoke (Fun ''other'') [event_val error_event]]"
proof -
  have 1: "parseJSON page (event_data result_event)
           = Some (Obj [(''jsonrpc'', Str ''2.0''), (''id'', Num 1), (''result'', Str ''A'')])"
    by (simp add: result_event_def page_parses)
  have 2: "parseJSON page (event_data error_event)
           = Some (Obj [(''jsonrpc'', Str ''2.0''), (''id'', Num 1), (''error'', Str ''E'')])"
    by (simp add: error_event_def page_parses)
  have 3: "p_ws_callbacks waiting_world
             (prop_key (dot (Obj [(''jsonrpc'', Str ''2.0''), (''id'', Num 1),
                                  (''result'', Str ''A'')]) ''id''))
           = Some \<lparr>success_cb = Some (Fun ''ok''), error_cb = Some (Fun ''failed'')\<rparr>"
    by (simp add: waiting_world_def fresh_world_def dot_def num_str_1)
  have 4: "prop_key (dot (Obj [(''jsonrpc'', Str ''2.0''), (''id'', Num 1),
                               (''error'', Str ''E'')]) ''id'')
           = prop_key (dot (Obj [(''jsonrpc'', Str ''2.0''), (''id'', Num 1),
                                 (''result'', Str ''A'')]) ''id'')"
    by (simp add: dot_def)
  note t = ws_response_resolves_once [OF 1 _ 3 _ 2 _ 4, of ws_client ws_client]
  have first: "p_wsOnMessage page ws_client result_event waiting_world
               = Returned (waiting_world\<lparr>p_ws_callbacks := Map.empty,
                    trace := [Invoke (Fun ''ok'') [Str ''A'']]\<rparr>)"
    using t [THEN conjunct1]
    by (simp add: waiting_world_def fresh_world_def dot_def num_str_1 invoke_def)
  have second: "p_wsOnMessage page ws_client error_event
                  (waiting_world\<lparr>p_ws_callbacks := Map.empty,
                     trace := [Invoke (Fun ''ok'') [Str ''A'']]\<rparr>)
                = Returned (waiting_world\<lparr>p_ws_callbacks := Map.empty,
                    trace := [Invoke (Fun ''ok'') [Str ''A''],
                              Invoke (Fun ''other'') [event_val error_event]]\<rparr>)"
    using t [THEN conjunct2, THEN conjunct2] unfolding first state_of.simps
    by (simp add: fallback_def ws_client_def JsonRpcClient_def invoke_def)
  show ?thesis
    unfolding first state_of.simps second
    by (simp add: waiting_world_def fresh_world_def)
qed

text \<open>
  C5, as the code has it. A new client is used for anything, in any order (\<open>pre\<close>: calls,
  notifications, batches, messages arriving, sockets opening, exchanges succeeding), and
  then \<open>call\<close> is invoked. The request that this \<open>call\<close> hands on carries as its \<open>id\<close> the
  number of calls made so far, this one included, as long as that is at most \<open>2^53\<close>; every
  later call carries \<open>2^53\<close> again, the counter being a double. So the ids increase
  strictly from 1 over the first \<open>2^53\<close> calls. Handing on is: over a socket, the text of the
  request is given to \<open>send\<close>, or put into \<open>onopen\<close> while the socket is connecting, and
  the continuations are stored under the id; in an open batch, the request is appended to
  the batch; else the text of the request is posted; with no backend nothing is handed on
  and the call throws. \<open>notify\<close> hands on, in the same ways, a request that has no \<open>id\<close>
  member, and leaves the counter as it was.
\<close>

theorem call_hands_on_next_id:
  "call e method params success error (session e pre (JsonRpcClient f opts, w))
   = (let st = session e pre (JsonRpcClient f opts, w);
          n = min (1 + int (length (filter is_call pre))) 9007199254740992;
          req = Obj [(''jsonrpc'', Str ''2.0''), (''method'', Str method), (''params'', params),
                     (''id'', Num n)];
          c1 = (fst st)\<lparr>p_current_id := min (n + 1) 9007199254740992\<rparr>
      in case options_getSocket e c1 (snd st) of
           (Some socket, c2, w2) \<Rightarrow>
             Returned
               (c2,
                w2\<lparr>sockets := (sockets w2)
                      (socket :=
                         if readyState (sockets w2 socket) < 1
                         then (sockets w2 socket)\<lparr>sock_onopen := Some (toJSON e req)\<rparr>
                         else (sockets w2 socket)
                                \<lparr>sent := sent (sockets w2 socket) @ [toJSON e req]\<rparr>),
                    p_ws_callbacks :=
                      if success \<noteq> None
                      then (p_ws_callbacks w2)
                             (num_str n \<mapsto> \<lparr>success_cb = success, error_cb = error\<rparr>)
                      else p_ws_callbacks w2\<rparr>)
         | (None, c2, w2) \<Rightarrow>
             (case p_batch c2 of
                Some b \<Rightarrow>
                  Returned
                    (c2\<lparr>p_batch := Some (b @
                       [\<lparr>success_cb = success, error_cb = error, request = req\<rparr>])\<rparr>, w2)
              | None \<Rightarrow>
                  (case ajaxUrl (options c2) of
                     None \<Rightarrow>
                       Thrown (ThrownString
                         ''$.JsonRpcClient.call used with no websocket and no http endpoint.'')
                         (c2, w2)
                   | Some u \<Rightarrow>
                       Returned
                         (c2,
                          w2\<lparr>trace := trace w2 @
                            [Ajax \<lparr>ajax_url = Some u, ajax_data = toJSON e req,
                                   ajax_callbacks = CallCb success error\<rparr>]\<rparr>))))
   \<and> notify e method params cw
     = (let req = Obj [(''jsonrpc'', Str ''2.0''), (''method'', Str method),
                       (''params'', params)]
        in case options_getSocket e (fst cw) (snd cw) of
             (Some socket, c2, w2) \<Rightarrow>
               Returned
                 (c2,
                  w2\<lparr>sockets := (sockets w2)
                        (socket :=
                           if readyState (sockets w2 socket) < 1
                           then (sockets w2 socket)\<lparr>sock_onopen := Some (toJSON e req)\<rparr>
                           else (sockets w2 socket)
                                  \<lparr>sent := sent (sockets w2 socket) @ [toJSON e req]\<rparr>)\<rparr>)
           | (None, c2, w2) \<Rightarrow>
               (case p_batch c2 of
                  Some b \<Rightarrow>
                    Returned
                      (c2\<lparr>p_batch := Some (b @
                         [\<lparr>success_cb = None, error_cb = None, request = req\<rparr>])\<rparr>, w2)
                | None \<Rightarrow>
                    (case ajaxUrl (options c2) of
                       None \<Rightarrow>
                         Thrown (ThrownString
                           ''$.JsonRpcClient.notify used with no websocket and no http endpoint.'')
                           (c2, w2)
                     | Some u \<Rightarrow>
                         Returned
                           (c2,
                            w2\<lparr>trace := trace w2 @
                              [Ajax \<lparr>ajax_url = Some u, ajax_data = toJSON e req,
                                     ajax_callbacks = NotifyCb\<rparr>]\<rparr>))))
   \<and> p_current_id (fst (state_of (notify e method params cw))) = p_current_id (fst cw)"
proof -
  have n: "p_current_id (fst (session e pre (JsonRpcClient f opts, w)))
           = min (1 + int (length (filter is_call pre))) 9007199254740992"
    using session_current_id [of "(JsonRpcClient f opts, w)" e pre]
    by (simp add: JsonRpcClient_def)
  have i: "increment (min (1 + int (length (filter is_call pre))) 9007199254740992)
           = min (min (1 + int (length (filter is_call pre))) 9007199254740992 + 1)
               9007199254740992"
    by (rule increment_min) simp
  show ?thesis
    by (intro conjI)
       (simp only: call_expanded [of e "method" "params" "success" "error"
            "session e pre (JsonRpcClient f opts, w)"] n i Let_def,
        rule notify_expanded, rule notify_current_id)
qed

text \<open>
  C5 as stated fails for a sequence of more than \<open>2^53\<close> calls: of \<open>2^53 + 1\<close> calls of a
  new client that has only HTTP, the last two post requests with the same id, \<open>2^53\<close>.
\<close>

theorem ids_repeat_from_2_53:
  "trace (snd (session page (replicate 9007199254740993 (Call ''bar'' (Arr []) None None))
      (http_client, fresh_world))) ! 9007199254740991
   = Ajax \<lparr>ajax_url = Some ''/backend/jsonrpc'',
           ajax_data = toJSON page
             (Obj [(''jsonrpc'', Str ''2.0''), (''method'', Str ''bar''), (''params'', Arr []),
                   (''id'', Num 9007199254740992)]),
           ajax_callbacks = CallCb None None\<rparr>
   \<and> trace (snd (session page (replicate 9007199254740993 (Call ''bar'' (Arr []) None None))
       (http_client, fresh_world))) ! 9007199254740992
     = Ajax \<lparr>ajax_url = Some ''/backend/jsonrpc'',
             ajax_data = toJSON page
               (Obj [(''jsonrpc'', Str ''2.0''), (''method'', Str ''bar''), (''params'', Arr []),
                     (''id'', Num 9007199254740992)]),
             ajax_callbacks = CallCb None None\<rparr>"
proof -
  have o: "getSocket (options http_client) = Default_getSocket"
    "socketUrl (options http_client) = None" "p_batch http_client = None"
    "ajaxUrl (options http_client) = Some ''/backend/jsonrpc''"
    "p_current_id http_client \<le> 9007199254740992"
    by (simp_all add: http_client_def JsonRpcClient_def)
  have t: "length (trace fresh_world) = 0" "p_current_id http_client = 1"
    by (simp_all add: fresh_world_def http_client_def JsonRpcClient_def)
  have a: "(9007199254740991::nat) < 9007199254740993" and b: "(9007199254740992::nat) < 9007199254740993"
    by simp_all
  show ?thesis
    using http_calls_nth [OF o a, of page "''bar''" "Arr []" None None fresh_world]
      http_calls_nth [OF o b, of page "''bar''" "Arr []" None None fresh_world]
    unfolding t by simp
qed

text \<open>
  C6, as the code has it. A message arrives on a socket and parses as a JSON-RPC 2.0
  object, and \<open>_ws_callbacks\<close> has no entry under the name of its id (for a null id that
  name is \<open>null\<close>, under which nothing is ever stored: \<open>null_never_registered\<close>). Then
  \<open>_wsOnMessage\<close> returns without raising, invokes no success or error continuation and
  leaves \<open>_ws_callbacks\<close> as it was. It logs nothing: the event goes to the fallback handler
  \<open>options.onmessage\<close> when there is one, and is dropped when there is none.
\<close>

theorem unmatched_response_goes_to_fallback:
  assumes "parseJSON e (event_data ev) = Some (Obj kvs)"
      and "map_of kvs ''jsonrpc'' = Some (Str ''2.0'')"
      and "p_ws_callbacks w (prop_key (dot (Obj kvs) ''id'')) = None"
  shows "p_wsOnMessage e c ev w
         = Returned (case onmessage (options c) of
                       None \<Rightarrow> w
                     | Some f \<Rightarrow> w\<lparr>trace := trace w @ [Invoke f [event_val ev]]\<rparr>)"
  using ws_no_entry [OF assms] by (simp add: fallback_returns)

text \<open>
  C6 at work: an error with a null id reaches a client without a fallback handler and
  changes nothing; a result for the unknown id 7 reaches a client with the fallback handler
  \<open>other\<close> and is handed to it.
\<close>

theorem unmatched_response_goes_to_fallback_witness:
  "p_wsOnMessage page http_client null_event waiting_world = Returned waiting_world
   \<and> p_wsOnMessage page ws_client stray_event waiting_world
     = Returned (waiting_world\<lparr>trace := [Invoke (Fun ''other'') [event_val stray_event]]\<rparr>)"
proof -
  have 1: "parseJSON page (event_data null_event)
           = Some (Obj [(''jsonrpc'', Str ''2.0''), (''id'', Null), (''error'', Str ''E'')])"
    by (simp add: null_event_def page_parses)
  have 2: "parseJSON page (event_data stray_event)
           = Some (Obj [(''jsonrpc'', Str ''2.0''), (''id'', Num 7), (''result'', Str ''X'')])"
    by (simp add: stray_event_def page_parses)
  have 3: "p_ws_callbacks waiting_world
             (prop_key (dot (Obj [(''jsonrpc'', Str ''2.0''), (''id'', Null),
                                  (''error'', Str ''E'')]) ''id'')) = None"
    by (simp add: waiting_world_def fresh_world_def dot_def)
  have 4: "p_ws_callbacks waiting_world
             (prop_key (dot (Obj [(''jsonrpc'', Str ''2.0''), (''id'', Num 7),
                                  (''result'', Str ''X'')]) ''id'')) = None"
    by (simp add: waiting_world_def fresh_world_def dot_def num_str_7)
  show ?thesis
    using unmatched_response_goes_to_fallback [OF 1 _ 3, of http_client]
      unmatched_response_goes_to_fallback [OF 2 _ 4, of ws_client]
    by (simp add: http_client_def ws_client_def JsonRpcClient_def waiting_world_def
          fresh_world_def)
qed

text \<open>
  C6 as stated fails: this message is a JSON-RPC 2.0 response whose id, 7, has no entry,
  and it is neither logged nor dropped: the only thing that happens is that the fallback
  handler \<open>other\<close> is invoked with the event.
\<close>

theorem unmatched_response_is_not_logged:
  "parseJSON page (event_data stray_event)
     = Some (Obj [(''jsonrpc'', Str ''2.0''), (''id'', Num 7), (''result'', Str ''X'')])
   \<and> p_ws_callbacks waiting_world (prop_key (Num 7)) = None
   \<and> trace (state_of (p_wsOnMessage page ws_client stray_event waiting_world))
     = [Invoke (Fun ''other'') [event_val stray_event]]"
  by (simp add: p_wsOnMessage_def wsOnMessage_try_def typeof_object_def in_and_callbacks_def
        stray_event_def page_parses waiting_world_def fresh_world_def dot_def num_str_7
        fallback_def invoke_def ws_client_def JsonRpcClient_def)

text \<open>
  C7, as the code has it. With no socket to be had and no \<open>ajaxUrl\<close>, \<open>call\<close> and \<open>notify\<close>
  throw to their caller when no batch is open; while a batch is open they enqueue the request
  and return, the test for an open batch coming first. (\<open>call\<close> has counted its id up
  either way.)
\<close>

theorem no_backend_throws_unless_batching:
  assumes "fst (options_getSocket e c w) = None"
      and "ajaxUrl (options c) = None"
  shows "call e method params success error (c, w)
         = (case p_batch c of
              None \<Rightarrow>
                Thrown (ThrownString
                  ''$.JsonRpcClient.call used with no websocket and no http endpoint.'')
                  (c\<lparr>p_current_id := increment (p_current_id c)\<rparr>, w)
            | Some b \<Rightarrow>
                Returned
                  (c\<lparr>p_current_id := increment (p_current_id c),
                     p_batch := Some (b @ [\<lparr>success_cb = success, error_cb = error,
                                            request = call_request c method params\<rparr>])\<rparr>, w))
         \<and> notify e method params (c, w)
         = (case p_batch c of
              None \<Rightarrow>
                Thrown (ThrownString
                  ''$.JsonRpcClient.notify used with no websocket and no http endpoint.'')
                  (c, w)
            | Some b \<Rightarrow>
                Returned
                  (c\<lparr>p_batch := Some (b @ [\<lparr>success_cb = None, error_cb = None,
                                            request = notify_request method params\<rparr>])\<rparr>, w))"
proof -
  obtain c' w' where g: "options_getSocket e c w = (None, c', w')"
    using assms(1) by (metis fst_conv prod_cases3)
  then have same: "c' = c" "w' = w"
    using getSocket_None_same by blast+
  show ?thesis
    using g same assms(2)
    by (simp add: call_def notify_def Let_def getSocket_with_id split: option.splits)
qed

text \<open>
  C7 at work: a client with no backend; its \<open>call\<close> throws, and its \<open>notify\<close> after
  \<open>startBatch\<close> is enqueued.
\<close>

theorem no_backend_throws_unless_batching_witness:
  "call page ''bar'' (Arr []) None None (no_backend_client, fresh_world)
   = Thrown (ThrownString ''$.JsonRpcClient.call used with no websocket and no http endpoint.'')
       (no_backend_client\<lparr>p_current_id := 2\<rparr>, fresh_world)
   \<and> notify page ''bar'' (Arr []) (startBatch no_backend_client, fresh_world)
   = Returned
       (no_backend_client\<lparr>p_batch := Some [\<lparr>success_cb = None, error_cb = None,
          request = notify_request ''bar'' (Arr [])\<rparr>]\<rparr>, fresh_world)"
proof -
  have a: "fst (options_getSocket page no_backend_client fresh_world) = None"
    by (simp add: options_getSocket_def p_getSocket_def no_backend_client_def JsonRpcClient_def)
  have b: "ajaxUrl (options no_backend_client) = None"
    by (simp add: no_backend_client_def JsonRpcClient_def)
  have a': "fst (options_getSocket page (startBatch no_backend_client) fresh_world) = None"
    by (simp add: options_getSocket_def p_getSocket_def no_backend_client_def JsonRpcClient_def
          startBatch_def)
  have b': "ajaxUrl (options (startBatch no_backend_client)) = None"
    by (simp add: no_backend_client_def JsonRpcClient_def startBatch_def)
  show ?thesis
    using no_backend_throws_unless_batching [OF a b, of "''bar''" "Arr []" None None]
      no_backend_throws_unless_batching [OF a' b', of "''bar''" "Arr []" None None]
    by (simp add: no_backend_client_def JsonRpcClient_def startBatch_def increment_def)
qed

text \<open>
  C7 as stated fails while a batch is open: this client has no socket and no \<open>ajaxUrl\<close>,
  and its \<open>call\<close> returns, the request in the batch.
\<close>

theorem call_in_open_batch_does_not_throw:
  "fst (options_getSocket page (startBatch no_backend_client) fresh_world) = None
   \<and> ajaxUrl (options (startBatch no_backend_client)) = None
   \<and> call page ''bar'' (Arr []) (Some (Fun ''ok'')) (Some (Fun ''failed''))
       (startBatch no_backend_client, fresh_world)
     = Returned
         (no_backend_client
            \<lparr>p_current_id := 2,
             p_batch := Some [\<lparr>success_cb = Some (Fun ''ok''), error_cb = Some (Fun ''failed''),
               request = Obj [(''jsonrpc'', Str ''2.0''), (''method'', Str ''bar''),
                              (''params'', Arr []), (''id'', Num 1)]\<rparr>]\<rparr>,
          fresh_world)"
  by (simp add: call_def call_request_def options_getSocket_def p_getSocket_def
        no_backend_client_def JsonRpcClient_def startBatch_def Let_def increment_def)

text \<open>
  C8. Calling \<open>startBatch\<close> twice in a row leaves the client as one call does: the second
  call finds \<open>_batch\<close> non-null and assigns nothing, so the accumulating batch is neither
  cleared nor replaced.
\<close>

theorem startBatch_twice:
  "startBatch (startBatch c) = startBatch c
   \<and> p_batch (startBatch (startBatch c)) = Some (case p_batch c of None \<Rightarrow> [] | Some b \<Rightarrow> b)"
  by (simp add: startBatch_def split: option.splits)

text \<open>
  C9. \<open>_ws_callbacks\<close> is one object for all instances, here a part of the world and not
  of a client. For any two clients \<open>a\<close> and \<open>b\<close>: a call through \<open>a\<close> over a socket
  stores its continuations in the world under the name of its id; a response with that id
  arriving at the \<open>wsOnMessage\<close> of \<open>b\<close> invokes the continuation that \<open>a\<close> stored and
  deletes the entry; and a call through \<open>b\<close> that carries the same id puts the
  continuations of \<open>b\<close> in the place of those of \<open>a\<close>.
\<close>

theorem callbacks_shared_between_instances:
  assumes "fst (options_getSocket e a w) = Some s"
      and "parseJSON e (event_data ev) = Some (Obj kvs)"
      and "map_of kvs ''jsonrpc'' = Some (Str ''2.0'')"
      and "map_of kvs ''id'' = Some (Num (p_current_id a))"
      and "map_of kvs ''result'' = Some v"
      and "fst (options_getSocket e b
             (snd (state_of (call e method params (Some g) error (a, w))))) = Some s'"
      and "p_current_id b = p_current_id a"
  shows "p_ws_callbacks (snd (state_of (call e method params (Some g) error (a, w))))
           (num_str (p_current_id a))
         = Some \<lparr>success_cb = Some g, error_cb = error\<rparr>
         \<and> p_wsOnMessage e b ev (snd (state_of (call e method params (Some g) error (a, w))))
           = Returned
               ((snd (state_of (call e method params (Some g) error (a, w))))
                  \<lparr>p_ws_callbacks := (p_ws_callbacks w)(num_str (p_current_id a) := None),
                   trace := trace (snd (state_of (call e method params (Some g) error (a, w))))
                            @ [Invoke g [v]]\<rparr>)
         \<and> p_ws_callbacks
             (snd (state_of (call e method_b params_b (Some g_b) error_b (b,
                snd (state_of (call e method params (Some g) error (a, w)))))))
             (num_str (p_current_id a))
           = Some \<lparr>success_cb = Some g_b, error_cb = error_b\<rparr>"
proof -
  let ?W = "snd (state_of (call e method params (Some g) error (a, w)))"
  have reg: "p_ws_callbacks ?W
             = (p_ws_callbacks w)
                 (num_str (p_current_id a) \<mapsto> \<lparr>success_cb = Some g, error_cb = error\<rparr>)"
    by (rule call_registers [OF assms(1)])
  have 1: "p_ws_callbacks ?W (num_str (p_current_id a))
           = Some \<lparr>success_cb = Some g, error_cb = error\<rparr>"
    by (simp add: reg)
  have 2: "p_wsOnMessage e b ev ?W
           = Returned (?W\<lparr>p_ws_callbacks := (p_ws_callbacks w)(num_str (p_current_id a) := None),
                          trace := trace ?W @ [Invoke g [v]]\<rparr>)"
    using ws_result_entry [OF assms(2,3,4,5), of ?W _ g b] 1
    by (simp add: reg)
  have 3: "p_ws_callbacks (snd (state_of (call e method_b params_b (Some g_b) error_b (b, ?W))))
             (num_str (p_current_id a))
           = Some \<lparr>success_cb = Some g_b, error_cb = error_b\<rparr>"
    by (simp add: call_registers [OF assms(6)] assms(7))
  show ?thesis
    using 1 2 3 by blast
qed

text \<open>
  C9 at work: two new clients on one page, both about to issue id 1. The first calls; the
  response for id 1 is delivered to the second client, and \<open>ok\<close>, the continuation of the
  first, is invoked; had the second client called instead, the entry under \<open>1\<close> would be
  its own.
\<close>

theorem callbacks_shared_between_instances_witness:
  "p_ws_callbacks
     (snd (state_of (call page ''bar'' (Arr []) (Some (Fun ''ok'')) (Some (Fun ''failed''))
        (ws_client, fresh_world)))) ''1''
   = Some \<lparr>success_cb = Some (Fun ''ok''), error_cb = Some (Fun ''failed'')\<rparr>
   \<and> trace (state_of (p_wsOnMessage page second_ws_client result_event
       (snd (state_of (call page ''bar'' (Arr []) (Some (Fun ''ok'')) (Some (Fun ''failed''))
          (ws_client, fresh_world))))))
     = [Invoke (Fun ''ok'') [Str ''A'']]
   \<and> p_ws_callbacks
       (snd (state_of (call page ''baz'' (Arr []) (Some (Fun ''ok2'')) None
          (second_ws_client,
           snd (state_of (call page ''bar'' (Arr []) (Some (Fun ''ok'')) (Some (Fun ''failed''))
             (ws_client, fresh_world))))))) ''1''
     = Some \<lparr>success_cb = Some (Fun ''ok2''), error_cb = None\<rparr>"
proof -
  let ?W = "snd (state_of (call page ''bar'' (Arr []) (Some (Fun ''ok'')) (Some (Fun ''failed''))
              (ws_client, fresh_world)))"
  have 1: "fst (options_getSocket page ws_client fresh_world) = Some (next_socket fresh_world)"
    by (rule default_getSocket_new)
       (simp_all add: ws_client_def JsonRpcClient_def page_def)
  have 2: "parseJSON page (event_data result_event)
           = Some (Obj [(''jsonrpc'', Str ''2.0''), (''id'', Num 1), (''result'', Str ''A'')])"
    by (simp add: result_event_def page_parses)
  have 3: "map_of [(''jsonrpc'', Str ''2.0''), (''id'', Num 1), (''result'', Str ''A'')] ''id''
           = Some (Num (p_current_id ws_client))"
    by (simp add: ws_client_def JsonRpcClient_def)
  have 4: "fst (options_getSocket page second_ws_client ?W) = Some (next_socket ?W)"
    by (rule default_getSocket_new)
       (simp_all add: second_ws_client_def JsonRpcClient_def page_def)
  have 5: "p_current_id second_ws_client = p_current_id ws_client"
    by (simp add: second_ws_client_def ws_client_def JsonRpcClient_def)
  have id: "num_str (p_current_id ws_client) = ''1''"
    by (simp add: ws_client_def JsonRpcClient_def num_str_1)
  have tr: "trace ?W = []"
    using call_on_socket_trace [OF 1] by (simp add: fresh_world_def)
  note t = callbacks_shared_between_instances
    [OF 1 2 _ 3 _ 4 5, where v = "Str ''A''" and method_b = "''baz''" and params_b = "Arr []"
       and g_b = "Fun ''ok2''" and error_b = None, unfolded id]
  have a: "p_ws_callbacks ?W ''1''
           = Some \<lparr>success_cb = Some (Fun ''ok''), error_cb = Some (Fun ''failed'')\<rparr>"
    using t by simp
  have b: "trace (state_of (p_wsOnMessage page second_ws_client result_event ?W))
           = [Invoke (Fun ''ok'') [Str ''A'']]"
    using t [THEN conjunct2, THEN conjunct1] by (simp add: tr)
  have c: "p_ws_callbacks
             (snd (state_of (call page ''baz'' (Arr []) (Some (Fun ''ok2'')) None
                (second_ws_client, ?W)))) ''1''
           = Some \<lparr>success_cb = Some (Fun ''ok2''), error_cb = None\<rparr>"
    using t by simp
  show ?thesis
    using a b c by blast
qed



end
